theory Spec2Isabelle
  imports Main "HOL-Library.Word"
begin

section \<open>Data model of AuthenticationMiddleware.ts\<close>

text \<open>
  The middleware is one class with three mutable fields (\<open>magicCode\<close>,
  \<open>currentAccessToken\<close>, \<open>sentCode\<close>), written by the HTTP redirect handler and read and
  reset by the chat turn handler. The embedding passes the object explicitly (\<open>this\<close>) and
  returns it updated, together with the list of calls made to the collaborators, in the
  order the source makes them. An exception is a value of the result: the redirect handler
  and the constructor throw only before their first call and first assignment, so their
  result is a sum with the exception on the left; a turn can be rejected after a call has
  been made, so its result is the calls made, the object as it is left, and the exception
  if there is one.

  A field the constructor never assigns is \<open>undefined\<close> in JavaScript; such fields are
  options here, \<open>None\<close> standing for \<open>undefined\<close>. A value whose declared type is
  \<open>string\<close> (the text of an activity, the credentials of a provider) is a string.

  Of the collaborators, \<open>sendActivity\<close> and \<open>next\<close> are taken to complete,
  \<open>req.query()\<close> is the raw query string, and the continuation of the token exchange
  runs to its end before the next request is served. The two whose failure the code does
  not handle are not taken to succeed: \<open>onLoginSuccess\<close> may reject, and the
  \<open>create\<close> of simple-oauth2 may refuse its options.
\<close>

text \<open>
  The exceptions: the two of the language, the one simple-oauth2 throws when it refuses
  an options object, and the rejection of \<open>onLoginSuccess\<close> with its reason.
\<close>

datatype error = TypeError | URIError | ValidationError | Rejected string

record Activity =
  type' :: string
  text' :: string
  conversation :: string

record TurnContext =
  activity :: Activity

record ProviderConfig =
  clientId :: string
  clientSecret :: string
  scopes :: "string list option"
  buttonText :: "string option"

text \<open>
  \<open>onLoginSuccess\<close> is the fourth member of the configuration; it is called for its
  effect, so the call appears as an event of the trace, and whether it completes is a
  parameter like the behaviour of the other collaborators.
\<close>

record AuthenticationConfig =
  userIsAuthenticated :: "TurnContext \<Rightarrow> bool"
  facebook :: "ProviderConfig option"
  activeDirectory :: "ProviderConfig option"
  github :: "ProviderConfig option"
  noUserFoundMessage :: "string option"

record ProviderEndpoints =
  tokenBaseUrl :: string
  tokenEndpoint :: string
  authorizationBaseUrl :: string
  authorizationEndpoint :: string

text \<open>The options object of simple-oauth2, \<open>client\<close> and \<open>auth\<close> flattened.\<close>

record ModuleOptions =
  client_id :: string
  client_secret :: string
  authorizeHost :: "string option"
  authorizePath :: "string option"
  tokenHost :: string
  tokenPath :: "string option"

text \<open>
  simple-oauth2 is a collaborator: a client is the object \<open>createOAuth\<close> builds from its
  options, an authorization URL is what \<open>authorizeURL\<close> builds from a client and its
  parameters, an access token is what \<open>accessToken.create\<close> wraps around the result of
  the exchange. Each is kept as the call that made it. \<open>createOAuth\<close> is the client
  once built; the library validates the options first and throws when it refuses them
  (\<open>create\<close> below).
\<close>

datatype OAuthClient = createOAuth ModuleOptions

datatype AuthorizeParams =
  AuthorizeParams (redirect_uri: string) (scope: "string list") (state: string)

datatype AuthorizationUri = authorizeURL OAuthClient AuthorizeParams

datatype TokenConfig = TokenConfig (code: string) (token_redirect_uri: string)

datatype AccessToken = accessToken_create OAuthClient string

record OAuthClients =
  facebookOAuthClient :: OAuthClient
  activeDirectoryOAuthClient :: OAuthClient
  githubOAuthClient :: OAuthClient

datatype CardAction =
  CardAction (action_type: string) (action_value: AuthorizationUri) (action_title: string)

text \<open>
  What \<open>context.sendActivity\<close> is given: a string, or the activity
  \<open>MessageFactory.attachment(CardFactory.thumbnailCard("", undefined, cardActions))\<close>.
\<close>

datatype Message = TextMessage string | ThumbnailCard "CardAction list"

datatype Event =
    SendActivity TurnContext Message
  | OnLoginSuccess TurnContext "AccessToken option"
  | Next
  | GetToken OAuthClient TokenConfig
  | ResSend string
  | ConsoleLog string string

record AuthenticationMiddleware =
  authenticated :: bool
  authenticationConfig :: AuthenticationConfig
  callbackURL :: string
  oauthClients :: OAuthClients
  magicCode :: "string option"
  currentAccessToken :: "AccessToken option"
  sentCode :: "bool option"

text \<open>
  What the source takes from its platform and its collaborators, as parameters:
  \<open>String.prototype.toLowerCase\<close>; \<open>decodeURIComponent\<close>, which throws \<open>URIError\<close>
  on a malformed escape (\<open>None\<close>); the outcome of
  \<open>client.authorizationCode.getToken(tokenConfig)\<close>, a rejection (\<open>Inl\<close>) or a result
  (\<open>Inr\<close>); the bytes \<open>crypto.randomBytes\<close> draws; the options the \<open>create\<close> of
  simple-oauth2 accepts; and the outcome of
  \<open>authenticationConfig.onLoginSuccess(context, accessToken)\<close>, which completes
  (\<open>None\<close>) or rejects with a reason.
\<close>

record Runtime =
  toLowerCase :: "string \<Rightarrow> string"
  decodeURIComponent :: "string \<Rightarrow> string option"
  getToken :: "OAuthClient \<Rightarrow> TokenConfig \<Rightarrow> string + string"
  randomSource :: "nat \<Rightarrow> 8 word"
  createAccepts :: "ModuleOptions \<Rightarrow> bool"
  onLoginSuccess :: "TurnContext \<Rightarrow> AccessToken option \<Rightarrow> string option"

section \<open>JavaScript primitives the source uses\<close>

text \<open>Truthiness of an optional boolean: \<open>undefined\<close> and \<open>false\<close> are falsy.\<close>

definition truthy_bool :: "bool option \<Rightarrow> bool" where
  "truthy_bool b = (case b of None \<Rightarrow> False | Some v \<Rightarrow> v)"

text \<open>\<open>s.split(sep)\<close> for a one-character separator: never an empty array.\<close>

fun split_str :: "char \<Rightarrow> string \<Rightarrow> string list" where
  "split_str sep [] = [[]]"
| "split_str sep (c # cs) =
     (if c = sep then [] # split_str sep cs
      else (case split_str sep cs of
              [] \<Rightarrow> [[c]]
            | s # ss \<Rightarrow> (c # s) # ss))"

text \<open>\<open>xs[i]\<close>: \<open>undefined\<close> out of range.\<close>

definition index :: "'a list \<Rightarrow> nat \<Rightarrow> 'a option" where
  "index xs i = (if i < length xs then Some (xs ! i) else None)"

text \<open>\<open>s.slice(n)\<close> for a constant \<open>n \<ge> 0\<close>: everything from position \<open>n\<close> on.\<close>

definition slice :: "nat \<Rightarrow> string \<Rightarrow> string" where
  "slice n s = drop n s"

definition randomBytes :: "nat \<Rightarrow> (nat \<Rightarrow> 8 word) \<Rightarrow> 8 word list" where
  "randomBytes n src = map src [0..<n]"

definition hex_digit :: "nat \<Rightarrow> char" where
  "hex_digit n = ''0123456789abcdef'' ! (n mod 16)"

text \<open>\<open>buffer.toString('hex')\<close>: two lower-case digits for each byte.\<close>

definition toString_hex :: "8 word list \<Rightarrow> string" where
  "toString_hex bs =
     concat (map (\<lambda>b. [hex_digit (unat b div 16), hex_digit (unat b mod 16)]) bs)"

section \<open>The enumeration of providers\<close>

text \<open>
  Modelled from the spec: the enumeration \<open>StrategyType\<close> is declared in
  \<open>./interfaces\<close>, which is not among the sources; the spec gives its members as the
  identifiers \<open>ActiveDirectory\<close>, \<open>Facebook\<close> and \<open>Github\<close>, compared with and sent
  as the \<open>state\<close> string.
\<close>

definition StrategyType_ActiveDirectory :: string where
  "StrategyType_ActiveDirectory = ''ActiveDirectory''"

definition StrategyType_Facebook :: string where
  "StrategyType_Facebook = ''Facebook''"

definition StrategyType_Github :: string where
  "StrategyType_Github = ''Github''"

section \<open>Construction\<close>

definition knownEndpoints_facebook :: ProviderEndpoints where
  "knownEndpoints_facebook =
     \<lparr>tokenBaseUrl = ''https://graph.facebook.com'',
      tokenEndpoint = ''/v3.0/oauth/access_token'',
      authorizationBaseUrl = ''https://www.facebook.com'',
      authorizationEndpoint = ''/v3.0/dialog/oauth''\<rparr>"

definition knownEndpoints_activeDirectory :: ProviderEndpoints where
  "knownEndpoints_activeDirectory =
     \<lparr>tokenBaseUrl = ''https://login.microsoftonline.com'',
      tokenEndpoint = ''/common/oauth2/v2.0/token'',
      authorizationBaseUrl = ''https://login.microsoftonline.com'',
      authorizationEndpoint = ''/common/oauth2/v2.0/authorize''\<rparr>"

definition knownEndpoints_github :: ProviderEndpoints where
  "knownEndpoints_github =
     \<lparr>tokenBaseUrl = ''https://github.com'',
      tokenEndpoint = ''/login/oauth/access_token'',
      authorizationBaseUrl = ''https://github.com'',
      authorizationEndpoint = ''/login/oauth/authorize''\<rparr>"

definition initializationModule :: ModuleOptions where
  "initializationModule =
     \<lparr>client_id = '''', client_secret = '''',
      authorizeHost = None, authorizePath = None,
      tokenHost = tokenBaseUrl knownEndpoints_activeDirectory, tokenPath = None\<rparr>"

text \<open>The credentials object built for a configured provider (lines 156-167, 171-182, 186-197).\<close>

definition credentials :: "ProviderEndpoints \<Rightarrow> ProviderConfig \<Rightarrow> ModuleOptions" where
  "credentials e p =
     \<lparr>client_id = clientId p, client_secret = clientSecret p,
      authorizeHost = Some (authorizationBaseUrl e),
      authorizePath = Some (authorizationEndpoint e),
      tokenHost = tokenBaseUrl e, tokenPath = Some (tokenEndpoint e)\<rparr>"

text \<open>\<open>createOAuth(options)\<close>: the library validates the options and throws, or builds the client.\<close>

definition create :: "Runtime \<Rightarrow> ModuleOptions \<Rightarrow> error + OAuthClient" where
  "create rt options =
     (if createAccepts rt options then Inr (createOAuth options) else Inl ValidationError)"

text \<open>
  Lines 138-200. The three clients are first built from the placeholder options (the same
  options three times), then the client of each configured provider is built from its
  credentials and replaces the placeholder. The first options object the library refuses
  ends the construction.
\<close>

definition createOAuthClients :: "Runtime \<Rightarrow> AuthenticationConfig \<Rightarrow> error + OAuthClients" where
  "createOAuthClients rt cfg =
     (case create rt initializationModule of
        Inl e \<Rightarrow> Inl e
      | Inr placeholder \<Rightarrow>
          let clients0 = \<lparr>facebookOAuthClient = placeholder,
                          activeDirectoryOAuthClient = placeholder,
                          githubOAuthClient = placeholder\<rparr>
          in
          (case (case facebook cfg of
                   None \<Rightarrow> Inr clients0
                 | Some p \<Rightarrow>
                     (case create rt (credentials knownEndpoints_facebook p) of
                        Inl e \<Rightarrow> Inl e
                      | Inr c \<Rightarrow> Inr (clients0\<lparr>facebookOAuthClient := c\<rparr>))) of
             Inl e \<Rightarrow> Inl e
           | Inr clients1 \<Rightarrow>
               (case (case activeDirectory cfg of
                        None \<Rightarrow> Inr clients1
                      | Some p \<Rightarrow>
                          (case create rt (credentials knownEndpoints_activeDirectory p) of
                             Inl e \<Rightarrow> Inl e
                           | Inr c \<Rightarrow> Inr (clients1\<lparr>activeDirectoryOAuthClient := c\<rparr>))) of
                  Inl e \<Rightarrow> Inl e
                | Inr clients2 \<Rightarrow>
                    (case github cfg of
                       None \<Rightarrow> Inr clients2
                     | Some p \<Rightarrow>
                         (case create rt (credentials knownEndpoints_github p) of
                            Inl e \<Rightarrow> Inl e
                          | Inr c \<Rightarrow> Inr (clients2\<lparr>githubOAuthClient := c\<rparr>))))))"

text \<open>
  The constructor assigns \<open>authenticated\<close>, the configuration, the callback URL and the
  clients; \<open>magicCode\<close>, \<open>currentAccessToken\<close> and \<open>sentCode\<close> are left unassigned. It
  throws when \<open>createOAuthClients\<close> does.
\<close>

definition constructor ::
  "Runtime \<Rightarrow> AuthenticationConfig \<Rightarrow> error + AuthenticationMiddleware" where
  "constructor rt cfg =
     (case createOAuthClients rt cfg of
        Inl e \<Rightarrow> Inl e
      | Inr clients \<Rightarrow>
          Inr \<lparr>authenticated = False,
               authenticationConfig = cfg,
               callbackURL = ''http://localhost:3978/auth/callback'',
               oauthClients = clients,
               magicCode = None,
               currentAccessToken = None,
               sentCode = None\<rparr>)"

section \<open>The login card\<close>

text \<open>
  \<open>x ? x : d\<close> on an optional string, where \<open>undefined\<close> and the empty string are
  falsy; and on an optional array, which is truthy even when empty.
\<close>

definition string_or :: "string option \<Rightarrow> string \<Rightarrow> string" where
  "string_or x d = (case x of None \<Rightarrow> d | Some t \<Rightarrow> if t = [] then d else t)"

definition array_or :: "string list option \<Rightarrow> string list \<Rightarrow> string list" where
  "array_or x d = (case x of None \<Rightarrow> d | Some xs \<Rightarrow> xs)"

definition createAuthenticationCard :: "AuthenticationMiddleware \<Rightarrow> Message" where
  "createAuthenticationCard this =
     (let cfg = authenticationConfig this;
          cardActions0 = [];
          cardActions1 =
            (case facebook cfg of
               None \<Rightarrow> cardActions0
             | Some p \<Rightarrow>
                 cardActions0 @
                 [CardAction ''openUrl''
                    (authorizeURL (facebookOAuthClient (oauthClients this))
                       (AuthorizeParams (callbackURL this)
                          (array_or (scopes p) [''public_profile''])
                          StrategyType_Facebook))
                    (string_or (buttonText p) ''Log in with Facebook'')]);
          cardActions2 =
            (case activeDirectory cfg of
               None \<Rightarrow> cardActions1
             | Some p \<Rightarrow>
                 cardActions1 @
                 [CardAction ''openUrl''
                    (authorizeURL (activeDirectoryOAuthClient (oauthClients this))
                       (AuthorizeParams (callbackURL this)
                          (array_or (scopes p) [''User.Read''])
                          StrategyType_ActiveDirectory))
                    (string_or (buttonText p) ''Log in with Microsoft'')]);
          cardActions3 =
            (case github cfg of
               None \<Rightarrow> cardActions2
             | Some p \<Rightarrow>
                 cardActions2 @
                 [CardAction ''openUrl''
                    (authorizeURL (githubOAuthClient (oauthClients this))
                       (AuthorizeParams (callbackURL this)
                          (array_or (scopes p) [''user''])
                          StrategyType_Github))
                    (string_or (buttonText p) ''Log in with GitHub'')])
      in ThumbnailCard cardActions3)"

section \<open>The turn handler\<close>

text \<open>
  \<open>handleMagicCode\<close> awaits \<open>onLoginSuccess\<close> before it resets the three fields (lines
  83-87), so it is in two parts. The first runs to the \<open>await\<close> or to the end:
  \<open>this.magicCode.toLowerCase()\<close> throws \<open>TypeError\<close> when \<open>magicCode\<close> is
  \<open>undefined\<close>; on a match \<open>onLoginSuccess\<close> is called with the token as it is then and
  the turn is suspended, the object untouched; on a mismatch the fields are reset and the
  failure notice is sent.
\<close>

datatype Progress = Settled "error option" | Awaiting

definition handleMagicCode_begin ::
  "Runtime \<Rightarrow> TurnContext \<Rightarrow> AuthenticationMiddleware
     \<Rightarrow> Event list \<times> AuthenticationMiddleware \<times> Progress" where
  "handleMagicCode_begin rt context this =
     (let submittedCode = text' (activity context) in
      case magicCode this of
        None \<Rightarrow> ([], this, Settled (Some TypeError))
      | Some m \<Rightarrow>
          if toLowerCase rt submittedCode = toLowerCase rt m
          then ([OnLoginSuccess context (currentAccessToken this)], this, Awaiting)
          else ([SendActivity context (TextMessage ''Authentication Failure'')],
                this\<lparr>magicCode := Some '''', sentCode := Some False,
                     currentAccessToken := None\<rparr>,
                Settled None))"

text \<open>
  The second part runs when the call has settled, on the object as it is by then (lines
  84-88): a rejection is rethrown by the \<open>await\<close> and nothing is reset; otherwise the
  fields are reset and the success notice is sent.
\<close>

definition handleMagicCode_resume ::
  "TurnContext \<Rightarrow> string option \<Rightarrow> AuthenticationMiddleware
     \<Rightarrow> Event list \<times> AuthenticationMiddleware \<times> error option" where
  "handleMagicCode_resume context outcome this =
     (case outcome of
        Some reason \<Rightarrow> ([], this, Some (Rejected reason))
      | None \<Rightarrow>
          ([SendActivity context (TextMessage ''Authentication Success'')],
           this\<lparr>magicCode := Some '''', sentCode := Some False,
                currentAccessToken := None\<rparr>,
           None))"

text \<open>The whole of \<open>handleMagicCode\<close>, when no other request is served during the \<open>await\<close>.\<close>

definition handleMagicCode ::
  "Runtime \<Rightarrow> TurnContext \<Rightarrow> AuthenticationMiddleware
     \<Rightarrow> Event list \<times> AuthenticationMiddleware \<times> error option" where
  "handleMagicCode rt context this =
     (case handleMagicCode_begin rt context this of
        (evs, this', Settled e) \<Rightarrow> (evs, this', e)
      | (evs, this', Awaiting) \<Rightarrow>
          (case handleMagicCode_resume context
                  (onLoginSuccess rt context (currentAccessToken this)) this' of
             (evs', this'', e) \<Rightarrow> (evs @ evs', this'', e)))"

definition onTurn ::
  "Runtime \<Rightarrow> TurnContext \<Rightarrow> AuthenticationMiddleware
     \<Rightarrow> Event list \<times> AuthenticationMiddleware \<times> error option" where
  "onTurn rt context this =
     (if type' (activity context) = ''message'' then
        if \<not> userIsAuthenticated (authenticationConfig this) context then
          if \<not> truthy_bool (sentCode this) then
            ((case noUserFoundMessage (authenticationConfig this) of
                None \<Rightarrow> []
              | Some m \<Rightarrow>
                  if m = [] then [] else [SendActivity context (TextMessage m)])
             @ [SendActivity context (createAuthenticationCard this)],
             this, None)
          else handleMagicCode rt context this
        else ([Next], this, None)
      else ([Next], this, None))"

section \<open>The redirect endpoint\<close>

text \<open>Line 101: \<open>req.query().split("&")[0].slice(5)\<close>.\<close>

definition query_code :: "string \<Rightarrow> error + string" where
  "query_code query =
     (case index (split_str CHR ''&'' query) 0 of
        None \<Rightarrow> Inl TypeError
      | Some seg \<Rightarrow> Inr (slice 5 seg))"

text \<open>Line 107: \<open>decodeURIComponent(req.query().split("&")[1].slice(6))\<close>.\<close>

definition query_state :: "Runtime \<Rightarrow> string \<Rightarrow> error + string" where
  "query_state rt query =
     (case index (split_str CHR ''&'' query) 1 of
        None \<Rightarrow> Inl TypeError
      | Some seg \<Rightarrow>
          (case decodeURIComponent rt (slice 6 seg) of
             None \<Rightarrow> Inl URIError
           | Some s \<Rightarrow> Inr s))"

text \<open>Lines 108-122: the \<open>switch\<close> on the state, in the order of its cases.\<close>

definition selectOAuthClient :: "OAuthClients \<Rightarrow> string \<Rightarrow> OAuthClient" where
  "selectOAuthClient clients st =
     (if st = StrategyType_ActiveDirectory then activeDirectoryOAuthClient clients
      else if st = StrategyType_Facebook then facebookOAuthClient clients
      else if st = StrategyType_Github then githubOAuthClient clients
      else activeDirectoryOAuthClient clients)"

text \<open>
  The handler that \<open>createRedirectEndpoint\<close> registers for \<open>GET /auth/callback\<close>, with the
  continuation of the exchange (\<open>then\<close> or \<open>catch\<close>) run to its end.
\<close>

definition redirectEndpoint ::
  "Runtime \<Rightarrow> string \<Rightarrow> AuthenticationMiddleware
     \<Rightarrow> error + (Event list \<times> AuthenticationMiddleware)" where
  "redirectEndpoint rt query this =
     (case query_code query of
        Inl e \<Rightarrow> Inl e
      | Inr c \<Rightarrow>
          let tokenConfig = TokenConfig c (callbackURL this) in
          (case query_state rt query of
             Inl e \<Rightarrow> Inl e
           | Inr st \<Rightarrow>
               let selectedOAuthClient = selectOAuthClient (oauthClients this) st in
               (case getToken rt selectedOAuthClient tokenConfig of
                  Inr result \<Rightarrow>
                    let accessToken = accessToken_create selectedOAuthClient result;
                        magic = toString_hex (randomBytes 4 (randomSource rt))
                    in Inr ([GetToken selectedOAuthClient tokenConfig,
                             ResSend (''Please enter the code into the bot: '' @ magic)],
                            this\<lparr>currentAccessToken := Some accessToken,
                                 magicCode := Some magic,
                                 sentCode := Some True\<rparr>)
                | Inl err \<Rightarrow>
                    Inr ([GetToken selectedOAuthClient tokenConfig,
                          ConsoleLog ''Access Token Error'' err],
                         this))))"

text \<open>Lines 61-63: the optional notice sent before the card.\<close>

definition notice :: "TurnContext \<Rightarrow> AuthenticationMiddleware \<Rightarrow> Event list" where
  "notice ctx this =
     (case noUserFoundMessage (authenticationConfig this) of
        None \<Rightarrow> []
      | Some m \<Rightarrow> if m = [] then [] else [SendActivity ctx (TextMessage m)])"

section \<open>Serving a sequence of requests\<close>

text \<open>
  The two entry points, and a run of the middleware over a list of requests, served one
  after the other, each to its end and under the behaviour of the platform at that
  moment. The run collects the calls made; a request that throws leaves the object as the
  exception found it, the run goes on, and the first exception is reported.
\<close>

datatype Request = Turn TurnContext | Redirect string

fun serve ::
  "Runtime \<Rightarrow> Request \<Rightarrow> AuthenticationMiddleware
     \<Rightarrow> Event list \<times> AuthenticationMiddleware \<times> error option" where
  "serve rt (Turn context) this = onTurn rt context this"
| "serve rt (Redirect query) this =
     (case redirectEndpoint rt query this of
        Inl e \<Rightarrow> ([], this, Some e)
      | Inr (evs, this') \<Rightarrow> (evs, this', None))"

fun run ::
  "(Runtime \<times> Request) list \<Rightarrow> AuthenticationMiddleware
     \<Rightarrow> Event list \<times> AuthenticationMiddleware \<times> error option" where
  "run [] this = ([], this, None)"
| "run ((rt, r) # rs) this =
     (case serve rt r this of
        (evs, this', e) \<Rightarrow>
          (case run rs this' of
             (evs', this'', e') \<Rightarrow>
               (evs @ evs', this'', (case e of None \<Rightarrow> e' | Some x \<Rightarrow> Some x))))"

text \<open>What the properties below observe in a trace.\<close>

fun is_turn :: "Request \<Rightarrow> bool" where
  "is_turn (Turn _) = True"
| "is_turn (Redirect _) = False"

fun is_login :: "Event \<Rightarrow> bool" where
  "is_login (OnLoginSuccess _ _) = True"
| "is_login _ = False"

definition count_logins :: "Event list \<Rightarrow> nat" where
  "count_logins evs = length (filter is_login evs)"


fun card_actions :: "Message \<Rightarrow> CardAction list" where
  "card_actions (ThumbnailCard as) = as"
| "card_actions (TextMessage _) = []"

fun action_params :: "CardAction \<Rightarrow> AuthorizeParams" where
  "action_params (CardAction _ (authorizeURL _ ps) _) = ps"

fun redirect_uris :: "Event \<Rightarrow> string list" where
  "redirect_uris (SendActivity _ m) = map (redirect_uri \<circ> action_params) (card_actions m)"
| "redirect_uris (GetToken _ tc) = [token_redirect_uri tc]"
| "redirect_uris _ = []"

section \<open>A sample deployment\<close>

text \<open>
  A concrete platform and configuration, on which the properties below are instantiated.
  \<open>ascii_toLowerCase\<close> and \<open>ascii_decodeURIComponent\<close> are the two built-ins on ASCII
  input: letters \<open>A-Z\<close> are lowered, and an escape \<open>%XX\<close> below \<open>80\<close> is decoded,
  a malformed one throws. The exchange rejects the code \<open>expired\<close> and accepts every
  other; the random bytes are \<open>a1 b2 c3 d4\<close>. The configuration is the one of the
  scenario in the specification: Facebook and GitHub, no Active Directory.
\<close>

definition ascii_toLowerCase :: "string \<Rightarrow> string" where
  "ascii_toLowerCase s =
     map (\<lambda>c. if 65 \<le> (of_char c :: nat) \<and> (of_char c :: nat) \<le> 90
              then char_of ((of_char c :: nat) + 32) else c) s"

definition hex_value :: "char \<Rightarrow> nat option" where
  "hex_value c =
     (let n = (of_char c :: nat)
      in if 48 \<le> n \<and> n \<le> 57 then Some (n - 48)
         else if 65 \<le> n \<and> n \<le> 70 then Some (n - 55)
         else if 97 \<le> n \<and> n \<le> 102 then Some (n - 87)
         else None)"

fun ascii_decodeURIComponent :: "string \<Rightarrow> string option" where
  "ascii_decodeURIComponent [] = Some []"
| "ascii_decodeURIComponent (c # cs) =
     (if c = CHR ''%'' then
        (case cs of
           h # l # rest \<Rightarrow>
             (case (hex_value h, hex_value l) of
                (Some a, Some b) \<Rightarrow>
                  if 16 * a + b < 128
                  then map_option ((#) (char_of (16 * a + b))) (ascii_decodeURIComponent rest)
                  else None
              | _ \<Rightarrow> None)
         | _ \<Rightarrow> None)
      else map_option ((#) c) (ascii_decodeURIComponent cs))"

definition sample_getToken :: "OAuthClient \<Rightarrow> TokenConfig \<Rightarrow> string + string" where
  "sample_getToken client tc =
     (if code tc = ''expired'' then Inl ''invalid_grant'' else Inr (''token-for-'' @ code tc))"

definition sample_randomSource :: "nat \<Rightarrow> 8 word" where
  "sample_randomSource i =
     (if i = 0 then 0xa1 else if i = 1 then 0xb2 else if i = 2 then 0xc3 else 0xd4)"

definition sample_runtime :: Runtime where
  "sample_runtime =
     \<lparr>toLowerCase = ascii_toLowerCase,
      decodeURIComponent = ascii_decodeURIComponent,
      getToken = sample_getToken,
      randomSource = sample_randomSource,
      createAccepts = (\<lambda>options. True),
      onLoginSuccess = (\<lambda>context token. None)\<rparr>"


text \<open>The same platform with a library that refuses an empty client secret.\<close>

definition strict_runtime :: Runtime where
  "strict_runtime =
     sample_runtime\<lparr>createAccepts := (\<lambda>options. client_secret options \<noteq> [])\<rparr>"

definition sample_facebook :: ProviderConfig where
  "sample_facebook =
     \<lparr>clientId = ''fb-app'', clientSecret = ''fb-secret'', scopes = None, buttonText = None\<rparr>"

definition sample_github :: ProviderConfig where
  "sample_github =
     \<lparr>clientId = ''gh-app'', clientSecret = ''gh-secret'',
      scopes = Some [''repo''], buttonText = Some ''GitHub login''\<rparr>"

definition sample_config :: AuthenticationConfig where
  "sample_config =
     \<lparr>userIsAuthenticated = (\<lambda>context. conversation (activity context) = ''signed-in''),
      facebook = Some sample_facebook,
      activeDirectory = None,
      github = Some sample_github,
      noUserFoundMessage = Some ''Please sign in''\<rparr>"

definition sample_message :: "string \<Rightarrow> TurnContext" where
  "sample_message t =
     \<lparr>activity = \<lparr>type' = ''message'', text' = t, conversation = ''visitor''\<rparr>\<rparr>"

text \<open>The clients and the object that construction returns for the sample configuration.\<close>

definition sample_clients :: OAuthClients where
  "sample_clients =
     \<lparr>facebookOAuthClient = createOAuth (credentials knownEndpoints_facebook sample_facebook),
      activeDirectoryOAuthClient = createOAuth initializationModule,
      githubOAuthClient = createOAuth (credentials knownEndpoints_github sample_github)\<rparr>"

definition sample_object :: AuthenticationMiddleware where
  "sample_object =
     \<lparr>authenticated = False,
      authenticationConfig = sample_config,
      callbackURL = ''http://localhost:3978/auth/callback'',
      oauthClients = sample_clients,
      magicCode = None,
      currentAccessToken = None,
      sentCode = None\<rparr>"

text \<open>
  The object after the redirect \<open>code=abc123&state=Github\<close> has been served, and after
  the code it stored has been consumed.
\<close>

definition sample_pending :: AuthenticationMiddleware where
  "sample_pending =
     sample_object
       \<lparr>currentAccessToken :=
          Some (accessToken_create (githubOAuthClient sample_clients) ''token-for-abc123''),
        magicCode := Some ''a1b2c3d4'',
        sentCode := Some True\<rparr>"

definition sample_consumed :: AuthenticationMiddleware where
  "sample_consumed =
     sample_pending\<lparr>magicCode := Some '''', sentCode := Some False,
                    currentAccessToken := None\<rparr>"

text \<open>The sample configuration with the secret of one provider left empty.\<close>

definition sample_config_no_secret :: AuthenticationConfig where
  "sample_config_no_secret =
     sample_config
       \<lparr>facebook := Some \<lparr>clientId = ''fb-app'', clientSecret = [],
                           scopes = None, buttonText = None\<rparr>\<rparr>"

definition sample_requests :: "(Runtime \<times> Request) list" where
  "sample_requests =
     [(sample_runtime, Turn (sample_message ''hello'')),
      (sample_runtime, Redirect ''code=abc123&state=Github''),
      (sample_runtime, Turn (sample_message ''A1B2C3D4''))]"

section \<open>The sample deployment\<close>

lemma sample_lower:
  "ascii_toLowerCase ''A1B2C3D4'' = ''a1b2c3d4''"
  "ascii_toLowerCase ''a1b2c3d4'' = ''a1b2c3d4''"
  "ascii_toLowerCase ''deadbeef'' = ''deadbeef''"
  by code_simp+

lemma sample_constructed: "constructor sample_runtime sample_config = Inr sample_object"
  by (simp add: constructor_def createOAuthClients_def create_def sample_runtime_def
        sample_config_def sample_object_def sample_clients_def)

lemma sample_pending_stored:
  "redirectEndpoint sample_runtime ''code=abc123&state=Github'' sample_object
     = Inr ([GetToken (githubOAuthClient sample_clients)
               (TokenConfig ''abc123'' ''http://localhost:3978/auth/callback''),
             ResSend ''Please enter the code into the bot: a1b2c3d4''],
            sample_pending)"
  by (simp add: redirectEndpoint_def query_code_def query_state_def index_def slice_def
        selectOAuthClient_def StrategyType_ActiveDirectory_def StrategyType_Facebook_def
        StrategyType_Github_def sample_runtime_def sample_getToken_def sample_pending_def
        sample_object_def toString_hex_def randomBytes_def sample_randomSource_def
        hex_digit_def hex_value_def Let_def upt_rec)

section \<open>The turn handler: submitting a code\<close>

lemma onTurn_no_pending:
  assumes "\<not> truthy_bool (sentCode this)"
  shows "\<exists>evs. onTurn rt context this = (evs, this, None) \<and> count_logins evs = 0"
  using assms
  by (auto simp: onTurn_def count_logins_def createAuthenticationCard_def Let_def
           split: option.splits)

lemma run_turns_no_pending:
  assumes "\<not> truthy_bool (sentCode this)" and "\<forall>q \<in> set reqs. is_turn (snd q)"
  shows "\<exists>evs. run reqs this = (evs, this, None) \<and> count_logins evs = 0"
  using assms
proof (induction reqs)
  case Nil
  then show ?case by (simp add: count_logins_def)
next
  case (Cons q reqs)
  obtain rt r where q: "q = (rt, r)" by (cases q)
  with Cons.prems obtain ctx where r: "r = Turn ctx" by (cases r) auto
  from onTurn_no_pending [OF Cons.prems(1)] obtain evs
    where e: "onTurn rt ctx this = (evs, this, None)" "count_logins evs = 0" by blast
  from Cons.IH Cons.prems obtain evs'
    where e': "run reqs this = (evs', this, None)" "count_logins evs' = 0" by auto
  show ?case using q r e e' by (simp add: count_logins_def)
qed






text \<open>
  The \<open>await\<close> also lets a second turn start before the first has reset anything: both
  find the stored code and both call \<open>onLoginSuccess\<close>.
\<close>

lemma two_turns_before_either_resumes:
  "handleMagicCode_begin sample_runtime (sample_message ''A1B2C3D4'') sample_pending =
     ([OnLoginSuccess (sample_message ''A1B2C3D4'') (currentAccessToken sample_pending)],
      sample_pending, Awaiting)
   \<and> handleMagicCode_begin sample_runtime (sample_message ''a1b2c3d4'') sample_pending =
     ([OnLoginSuccess (sample_message ''a1b2c3d4'') (currentAccessToken sample_pending)],
      sample_pending, Awaiting)"
  by (simp add: handleMagicCode_begin_def sample_message_def sample_pending_def
        sample_runtime_def sample_lower)



section \<open>The turn handler: first contact\<close>

text \<open>
  Claim C2 as stated fails: the first message of an unauthenticated session is answered
  with the notice and the card, and the object is returned as it was, with \<open>sentCode\<close>
  still unset.
\<close>

theorem first_contact_sets_sentCode_counterexample:
  "constructor sample_runtime sample_config = Inr sample_object
   \<and> onTurn sample_runtime (sample_message ''hello'') sample_object =
     ([SendActivity (sample_message ''hello'') (TextMessage ''Please sign in''),
       SendActivity (sample_message ''hello'') (createAuthenticationCard sample_object)],
      sample_object, None)
   \<and> sentCode sample_object = None"
  by (simp add: sample_constructed)
     (simp add: onTurn_def sample_object_def sample_config_def sample_message_def
        truthy_bool_def)

text \<open>
  Claim C2, amended. A user message arrives, the session is not authenticated and
  \<open>sentCode\<close> is not true: the turn handler sends the configured notice if there is a
  non-empty one, then the login card, does not call \<open>next\<close>, and leaves the object,
  \<open>sentCode\<close> included, unchanged.
\<close>

theorem first_contact_shows_card:
  assumes "type' (activity context) = ''message''"
    and "\<not> userIsAuthenticated (authenticationConfig this) context"
    and "\<not> truthy_bool (sentCode this)"
  shows "\<exists>evs this'.
           onTurn rt context this = (evs, this', None)
         \<and> evs = notice context this @ [SendActivity context (createAuthenticationCard this)]
         \<and> Next \<notin> set evs
         \<and> this' = this
         \<and> sentCode this' = sentCode this"
  using assms
  by (auto simp: onTurn_def notice_def split: option.splits)

text \<open>
  C2, amended, at the first message after construction.
\<close>

theorem first_contact_shows_card_witness:
  "\<exists>evs this'.
     onTurn sample_runtime (sample_message ''hello'') sample_object = (evs, this', None)
   \<and> evs = [SendActivity (sample_message ''hello'') (TextMessage ''Please sign in''),
            SendActivity (sample_message ''hello'') (createAuthenticationCard sample_object)]
   \<and> Next \<notin> set evs
   \<and> this' = sample_object
   \<and> sentCode this' = None"
proof -
  have m: "type' (activity (sample_message ''hello'')) = ''message''"
    by (simp add: sample_message_def)
  have u: "\<not> userIsAuthenticated (authenticationConfig sample_object)
               (sample_message ''hello'')"
    by (simp add: sample_message_def sample_object_def sample_config_def)
  have s: "\<not> truthy_bool (sentCode sample_object)"
    by (simp add: sample_object_def truthy_bool_def)
  have n: "notice (sample_message ''hello'') sample_object
             = [SendActivity (sample_message ''hello'') (TextMessage ''Please sign in'')]"
    by (simp add: notice_def sample_object_def sample_config_def)
  have z: "sentCode sample_object = None"
    by (simp add: sample_object_def)
  from first_contact_shows_card [OF m u s, of sample_runtime] n z
  show ?thesis by simp
qed

section \<open>The turn handler: no pending code\<close>

text \<open>
  Claim C3 as stated fails. Right after construction no code is stored; a message that
  carries a code is answered with the notice and the login card, not with the failure
  notice, and \<open>sentCode\<close> is not reset to \<open>false\<close>. \<open>handleMagicCode\<close> itself, called on
  that object, throws.
\<close>

theorem code_without_pending_counterexample:
  "onTurn sample_runtime (sample_message ''a1b2c3d4'') sample_object =
     ([SendActivity (sample_message ''a1b2c3d4'') (TextMessage ''Please sign in''),
       SendActivity (sample_message ''a1b2c3d4'') (createAuthenticationCard sample_object)],
      sample_object, None)
   \<and> sentCode sample_object \<noteq> Some False
   \<and> handleMagicCode sample_runtime (sample_message ''a1b2c3d4'') sample_object
       = ([], sample_object, Some TypeError)"
  by (simp add: onTurn_def handleMagicCode_def handleMagicCode_begin_def sample_object_def
        sample_config_def sample_message_def truthy_bool_def)

text \<open>
  Claim C3, amended. While no code is awaited (\<open>sentCode\<close> undefined or false: none was
  ever stored, or the stored one has been consumed), the turn handler never throws and
  never calls \<open>onLoginSuccess\<close>, and it leaves the object unchanged: the test of
  \<open>sentCode\<close> keeps the message away from \<open>handleMagicCode\<close>. A message of an
  unauthenticated session is answered with the optional notice and the login card. The
  same holds for every sequence of turns.
\<close>

theorem no_pending_never_throws:
  assumes "\<not> truthy_bool (sentCode this)"
  shows "(\<exists>evs. onTurn rt context this = (evs, this, None)
            \<and> count_logins evs = 0
            \<and> (type' (activity context) = ''message''
                 \<and> \<not> userIsAuthenticated (authenticationConfig this) context
               \<longrightarrow> evs = notice context this
                           @ [SendActivity context (createAuthenticationCard this)]))
       \<and> (\<forall>reqs. (\<forall>q \<in> set reqs. is_turn (snd q)) \<longrightarrow>
            (\<exists>evs. run reqs this = (evs, this, None) \<and> count_logins evs = 0))"
proof (intro conjI allI impI)
  show "\<exists>evs. onTurn rt context this = (evs, this, None)
            \<and> count_logins evs = 0
            \<and> (type' (activity context) = ''message''
                 \<and> \<not> userIsAuthenticated (authenticationConfig this) context
               \<longrightarrow> evs = notice context this
                           @ [SendActivity context (createAuthenticationCard this)])"
    using assms
    by (auto simp: onTurn_def notice_def count_logins_def split: option.splits)
next
  fix reqs :: "(Runtime \<times> Request) list"
  assume "\<forall>q \<in> set reqs. is_turn (snd q)"
  with assms show "\<exists>evs. run reqs this = (evs, this, None) \<and> count_logins evs = 0"
    by (rule run_turns_no_pending)
qed

text \<open>
  C3, amended, at the object left by a consumed code: the replayed code and an empty
  message are both answered with the card.
\<close>

theorem no_pending_never_throws_witness:
  "(\<exists>evs. onTurn sample_runtime (sample_message ''a1b2c3d4'') sample_consumed
            = (evs, sample_consumed, None)
        \<and> count_logins evs = 0
        \<and> evs = [SendActivity (sample_message ''a1b2c3d4'') (TextMessage ''Please sign in''),
                 SendActivity (sample_message ''a1b2c3d4'')
                   (createAuthenticationCard sample_consumed)])
   \<and> (\<exists>evs. run [(sample_runtime, Turn (sample_message ''a1b2c3d4'')),
                  (sample_runtime, Turn (sample_message ''''))] sample_consumed
            = (evs, sample_consumed, None) \<and> count_logins evs = 0)"
proof -
  have s: "\<not> truthy_bool (sentCode sample_consumed)"
    by (simp add: sample_consumed_def truthy_bool_def)
  have m: "type' (activity (sample_message ''a1b2c3d4'')) = ''message''"
    by (simp add: sample_message_def)
  have u: "\<not> userIsAuthenticated (authenticationConfig sample_consumed)
               (sample_message ''a1b2c3d4'')"
    by (simp add: sample_message_def sample_consumed_def sample_pending_def
          sample_object_def sample_config_def)
  have n: "notice (sample_message ''a1b2c3d4'') sample_consumed
             = [SendActivity (sample_message ''a1b2c3d4'') (TextMessage ''Please sign in'')]"
    by (simp add: notice_def sample_consumed_def sample_pending_def sample_object_def
          sample_config_def)
  have t: "\<forall>q \<in> set [(sample_runtime, Turn (sample_message ''a1b2c3d4'')),
                       (sample_runtime, Turn (sample_message ''''))]. is_turn (snd q)"
    by simp
  note th = no_pending_never_throws [OF s, of sample_runtime "sample_message ''a1b2c3d4''"]
  from th m u n
  have p1: "\<exists>evs. onTurn sample_runtime (sample_message ''a1b2c3d4'') sample_consumed
            = (evs, sample_consumed, None)
        \<and> count_logins evs = 0
        \<and> evs = [SendActivity (sample_message ''a1b2c3d4'') (TextMessage ''Please sign in''),
                 SendActivity (sample_message ''a1b2c3d4'')
                   (createAuthenticationCard sample_consumed)]"
    by (auto simp del: run.simps)
  from th t
  have p2: "\<exists>evs. run [(sample_runtime, Turn (sample_message ''a1b2c3d4'')),
                  (sample_runtime, Turn (sample_message ''''))] sample_consumed
            = (evs, sample_consumed, None) \<and> count_logins evs = 0"
    by blast
  from p1 p2 show ?thesis by blast
qed

section \<open>The redirect endpoint: a rejected exchange\<close>

text \<open>
  Claim C4. When the query yields a code and a state and the exchange is rejected, the
  handler returns, logs \<open>Access Token Error\<close> with the error, and leaves the object as it
  was: \<open>magicCode\<close>, \<open>currentAccessToken\<close> and \<open>sentCode\<close> are those from before the
  request.
\<close>

theorem token_exchange_failure_keeps_state:
  assumes "query_code query = Inr c"
    and "query_state rt query = Inr st"
    and "getToken rt (selectOAuthClient (oauthClients this) st)
           (TokenConfig c (callbackURL this)) = Inl err"
  shows "redirectEndpoint rt query this =
           Inr ([GetToken (selectOAuthClient (oauthClients this) st)
                   (TokenConfig c (callbackURL this)),
                 ConsoleLog ''Access Token Error'' err],
                this)"
  using assms by (simp add: redirectEndpoint_def)

lemma sample_query_expired:
  "query_code ''code=expired&state=Github'' = Inr ''expired''"
  "query_state sample_runtime ''code=expired&state=Github'' = Inr ''Github''"
  by (simp_all add: query_code_def query_state_def index_def slice_def sample_runtime_def)

text \<open>
  C4 at a rejected exchange that arrives while the code \<open>a1b2c3d4\<close> is pending: the
  pending code survives.
\<close>

theorem token_exchange_failure_keeps_state_witness:
  "redirectEndpoint sample_runtime ''code=expired&state=Github'' sample_pending =
     Inr ([GetToken (githubOAuthClient (oauthClients sample_pending))
             (TokenConfig ''expired'' ''http://localhost:3978/auth/callback''),
           ConsoleLog ''Access Token Error'' ''invalid_grant''],
          sample_pending)"
proof -
  have g: "selectOAuthClient (oauthClients sample_pending) ''Github''
             = githubOAuthClient (oauthClients sample_pending)"
    by (simp add: selectOAuthClient_def StrategyType_ActiveDirectory_def
          StrategyType_Facebook_def StrategyType_Github_def)
  have u: "callbackURL sample_pending = ''http://localhost:3978/auth/callback''"
    by (simp add: sample_pending_def sample_object_def)
  have f: "getToken sample_runtime (selectOAuthClient (oauthClients sample_pending) ''Github'')
             (TokenConfig ''expired'' (callbackURL sample_pending)) = Inl ''invalid_grant''"
    by (simp add: sample_runtime_def sample_getToken_def)
  from token_exchange_failure_keeps_state [OF sample_query_expired f] g u
  show ?thesis by simp
qed

section \<open>Construction of the clients\<close>

text \<open>
  Claim C5 as stated fails: with a library that accepts it, a provider configured with an
  empty secret gets its client like any other, and construction returns the object. The
  source checks nothing itself, and no \<open>InvalidProviderConfig\<close> exists in it.
\<close>

theorem missing_credential_rejected_counterexample:
  "constructor sample_runtime sample_config_no_secret =
     Inr \<lparr>authenticated = False,
          authenticationConfig = sample_config_no_secret,
          callbackURL = ''http://localhost:3978/auth/callback'',
          oauthClients =
            sample_clients
              \<lparr>facebookOAuthClient :=
                 createOAuth
                   \<lparr>client_id = ''fb-app'', client_secret = [],
                    authorizeHost = Some ''https://www.facebook.com'',
                    authorizePath = Some ''/v3.0/dialog/oauth'',
                    tokenHost = ''https://graph.facebook.com'',
                    tokenPath = Some ''/v3.0/oauth/access_token''\<rparr>\<rparr>,
          magicCode = None, currentAccessToken = None, sentCode = None\<rparr>"
  by (simp add: constructor_def createOAuthClients_def create_def sample_runtime_def
        sample_config_no_secret_def sample_config_def sample_clients_def credentials_def
        knownEndpoints_facebook_def)

lemma createOAuthClients_returns:
  "(\<exists>clients. createOAuthClients rt cfg = Inr clients) \<longleftrightarrow>
     createAccepts rt initializationModule
     \<and> (\<forall>p. facebook cfg = Some p \<longrightarrow>
            createAccepts rt (credentials knownEndpoints_facebook p))
     \<and> (\<forall>p. activeDirectory cfg = Some p \<longrightarrow>
            createAccepts rt (credentials knownEndpoints_activeDirectory p))
     \<and> (\<forall>p. github cfg = Some p \<longrightarrow>
            createAccepts rt (credentials knownEndpoints_github p))"
  by (cases "facebook cfg"; cases "activeDirectory cfg"; cases "github cfg")
     (simp_all add: createOAuthClients_def create_def)

lemma createOAuthClients_throws:
  "createOAuthClients rt cfg = Inl e \<Longrightarrow> e = ValidationError"
  by (cases "facebook cfg"; cases "activeDirectory cfg"; cases "github cfg")
     (auto simp: createOAuthClients_def create_def split: if_splits)

lemma createOAuthClients_clients:
  assumes "createOAuthClients rt cfg = Inr clients"
  shows "facebookOAuthClient clients =
           (case facebook cfg of
              None \<Rightarrow> createOAuth initializationModule
            | Some p \<Rightarrow> createOAuth (credentials knownEndpoints_facebook p))"
    and "activeDirectoryOAuthClient clients =
           (case activeDirectory cfg of
              None \<Rightarrow> createOAuth initializationModule
            | Some p \<Rightarrow> createOAuth (credentials knownEndpoints_activeDirectory p))"
    and "githubOAuthClient clients =
           (case github cfg of
              None \<Rightarrow> createOAuth initializationModule
            | Some p \<Rightarrow> createOAuth (credentials knownEndpoints_github p))"
  using assms
  by (cases "facebook cfg"; cases "activeDirectory cfg"; cases "github cfg";
      auto simp: createOAuthClients_def create_def split: if_splits)+

text \<open>
  Claim C5, amended. Construction validates nothing itself. For every provider present in
  the configuration it hands \<open>clientId\<close> and \<open>clientSecret\<close> as they are given, empty or
  not, with the endpoints of that provider, to the \<open>create\<close> of the OAuth library, and
  the client returned is that provider's; a provider that is absent keeps the placeholder
  client, built from an empty id and an empty secret. Construction returns exactly when
  the library accepts the placeholder options and the options of every configured
  provider; when it fails, it fails with the library's error.
\<close>

theorem clients_built_without_validation:
  "((\<exists>this. constructor rt cfg = Inr this) \<longleftrightarrow>
      createAccepts rt initializationModule
      \<and> (\<forall>p. facebook cfg = Some p \<longrightarrow>
             createAccepts rt
               \<lparr>client_id = clientId p, client_secret = clientSecret p,
                authorizeHost = Some ''https://www.facebook.com'',
                authorizePath = Some ''/v3.0/dialog/oauth'',
                tokenHost = ''https://graph.facebook.com'',
                tokenPath = Some ''/v3.0/oauth/access_token''\<rparr>)
      \<and> (\<forall>p. activeDirectory cfg = Some p \<longrightarrow>
             createAccepts rt
               \<lparr>client_id = clientId p, client_secret = clientSecret p,
                authorizeHost = Some ''https://login.microsoftonline.com'',
                authorizePath = Some ''/common/oauth2/v2.0/authorize'',
                tokenHost = ''https://login.microsoftonline.com'',
                tokenPath = Some ''/common/oauth2/v2.0/token''\<rparr>)
      \<and> (\<forall>p. github cfg = Some p \<longrightarrow>
             createAccepts rt
               \<lparr>client_id = clientId p, client_secret = clientSecret p,
                authorizeHost = Some ''https://github.com'',
                authorizePath = Some ''/login/oauth/authorize'',
                tokenHost = ''https://github.com'',
                tokenPath = Some ''/login/oauth/access_token''\<rparr>))
   \<and> (\<forall>e. constructor rt cfg = Inl e \<longrightarrow> e = ValidationError)
   \<and> (\<forall>this. constructor rt cfg = Inr this \<longrightarrow>
        (\<forall>p. facebook cfg = Some p \<longrightarrow>
           facebookOAuthClient (oauthClients this) =
             createOAuth
               \<lparr>client_id = clientId p, client_secret = clientSecret p,
                authorizeHost = Some ''https://www.facebook.com'',
                authorizePath = Some ''/v3.0/dialog/oauth'',
                tokenHost = ''https://graph.facebook.com'',
                tokenPath = Some ''/v3.0/oauth/access_token''\<rparr>)
      \<and> (\<forall>p. activeDirectory cfg = Some p \<longrightarrow>
           activeDirectoryOAuthClient (oauthClients this) =
             createOAuth
               \<lparr>client_id = clientId p, client_secret = clientSecret p,
                authorizeHost = Some ''https://login.microsoftonline.com'',
                authorizePath = Some ''/common/oauth2/v2.0/authorize'',
                tokenHost = ''https://login.microsoftonline.com'',
                tokenPath = Some ''/common/oauth2/v2.0/token''\<rparr>)
      \<and> (\<forall>p. github cfg = Some p \<longrightarrow>
           githubOAuthClient (oauthClients this) =
             createOAuth
               \<lparr>client_id = clientId p, client_secret = clientSecret p,
                authorizeHost = Some ''https://github.com'',
                authorizePath = Some ''/login/oauth/authorize'',
                tokenHost = ''https://github.com'',
                tokenPath = Some ''/login/oauth/access_token''\<rparr>)
      \<and> (facebook cfg = None \<longrightarrow>
           facebookOAuthClient (oauthClients this) = createOAuth initializationModule)
      \<and> (activeDirectory cfg = None \<longrightarrow>
           activeDirectoryOAuthClient (oauthClients this) = createOAuth initializationModule)
      \<and> (github cfg = None \<longrightarrow>
           githubOAuthClient (oauthClients this) = createOAuth initializationModule))
   \<and> client_id initializationModule = [] \<and> client_secret initializationModule = []"
proof -
  have c: "credentials knownEndpoints_facebook p =
             \<lparr>client_id = clientId p, client_secret = clientSecret p,
              authorizeHost = Some ''https://www.facebook.com'',
              authorizePath = Some ''/v3.0/dialog/oauth'',
              tokenHost = ''https://graph.facebook.com'',
              tokenPath = Some ''/v3.0/oauth/access_token''\<rparr>"
          "credentials knownEndpoints_activeDirectory p =
             \<lparr>client_id = clientId p, client_secret = clientSecret p,
              authorizeHost = Some ''https://login.microsoftonline.com'',
              authorizePath = Some ''/common/oauth2/v2.0/authorize'',
              tokenHost = ''https://login.microsoftonline.com'',
              tokenPath = Some ''/common/oauth2/v2.0/token''\<rparr>"
          "credentials knownEndpoints_github p =
             \<lparr>client_id = clientId p, client_secret = clientSecret p,
              authorizeHost = Some ''https://github.com'',
              authorizePath = Some ''/login/oauth/authorize'',
              tokenHost = ''https://github.com'',
              tokenPath = Some ''/login/oauth/access_token''\<rparr>" for p
    by (simp_all add: credentials_def knownEndpoints_facebook_def
          knownEndpoints_activeDirectory_def knownEndpoints_github_def)
  have r: "(\<exists>this. constructor rt cfg = Inr this)
             \<longleftrightarrow> (\<exists>clients. createOAuthClients rt cfg = Inr clients)"
    by (cases "createOAuthClients rt cfg") (simp_all add: constructor_def)
  have 1: "(\<exists>this. constructor rt cfg = Inr this) \<longleftrightarrow>
      createAccepts rt initializationModule
      \<and> (\<forall>p. facebook cfg = Some p \<longrightarrow>
             createAccepts rt (credentials knownEndpoints_facebook p))
      \<and> (\<forall>p. activeDirectory cfg = Some p \<longrightarrow>
             createAccepts rt (credentials knownEndpoints_activeDirectory p))
      \<and> (\<forall>p. github cfg = Some p \<longrightarrow>
             createAccepts rt (credentials knownEndpoints_github p))"
    by (simp only: r createOAuthClients_returns)
  have 2: "\<forall>e. constructor rt cfg = Inl e \<longrightarrow> e = ValidationError"
    using createOAuthClients_throws [of rt cfg]
    by (cases "createOAuthClients rt cfg") (simp_all add: constructor_def)
  have 3: "\<forall>this. constructor rt cfg = Inr this \<longrightarrow>
        (\<forall>p. facebook cfg = Some p \<longrightarrow>
           facebookOAuthClient (oauthClients this) =
             createOAuth (credentials knownEndpoints_facebook p))
      \<and> (\<forall>p. activeDirectory cfg = Some p \<longrightarrow>
           activeDirectoryOAuthClient (oauthClients this) =
             createOAuth (credentials knownEndpoints_activeDirectory p))
      \<and> (\<forall>p. github cfg = Some p \<longrightarrow>
           githubOAuthClient (oauthClients this) =
             createOAuth (credentials knownEndpoints_github p))
      \<and> (facebook cfg = None \<longrightarrow>
           facebookOAuthClient (oauthClients this) = createOAuth initializationModule)
      \<and> (activeDirectory cfg = None \<longrightarrow>
           activeDirectoryOAuthClient (oauthClients this) = createOAuth initializationModule)
      \<and> (github cfg = None \<longrightarrow>
           githubOAuthClient (oauthClients this) = createOAuth initializationModule)"
  proof (cases "createOAuthClients rt cfg")
    case (Inl e)
    then show ?thesis by (simp add: constructor_def)
  next
    case (Inr clients)
    from createOAuthClients_clients [OF Inr] Inr
    show ?thesis by (auto simp: constructor_def)
  qed
  have 4: "client_id initializationModule = [] \<and> client_secret initializationModule = []"
    by (simp add: initializationModule_def)
  from 1 2 3 4 show ?thesis by (simp only: c)
qed

text \<open>
  C5, amended, at the configuration with the empty Facebook secret and no Active
  Directory entry: a library that accepts every options object returns the clients, the
  Facebook one with its empty secret; a library that refuses an empty secret refuses the
  placeholder options, and no construction returns.
\<close>

theorem clients_built_without_validation_witness:
  "(\<exists>this. constructor sample_runtime sample_config_no_secret = Inr this
        \<and> facebookOAuthClient (oauthClients this) =
            createOAuth
              \<lparr>client_id = ''fb-app'', client_secret = [],
               authorizeHost = Some ''https://www.facebook.com'',
               authorizePath = Some ''/v3.0/dialog/oauth'',
               tokenHost = ''https://graph.facebook.com'',
               tokenPath = Some ''/v3.0/oauth/access_token''\<rparr>
        \<and> activeDirectoryOAuthClient (oauthClients this) = createOAuth initializationModule)
   \<and> constructor strict_runtime sample_config = Inl ValidationError"
proof -
  have f: "facebook sample_config_no_secret =
             Some \<lparr>clientId = ''fb-app'', clientSecret = [], scopes = None, buttonText = None\<rparr>"
    by (simp add: sample_config_no_secret_def)
  have a: "activeDirectory sample_config_no_secret = None"
    by (simp add: sample_config_no_secret_def sample_config_def)
  have ok: "createAccepts sample_runtime options" for options
    by (simp add: sample_runtime_def)
  have no: "\<not> createAccepts strict_runtime initializationModule"
    by (simp add: strict_runtime_def initializationModule_def)
  note t1 = clients_built_without_validation [of sample_runtime sample_config_no_secret]
  note t2 = clients_built_without_validation [of strict_runtime sample_config]
  from t1 ok obtain this where c: "constructor sample_runtime sample_config_no_secret = Inr this"
    by blast
  from t1 c f a have p1: "facebookOAuthClient (oauthClients this) =
            createOAuth
              \<lparr>client_id = ''fb-app'', client_secret = [],
               authorizeHost = Some ''https://www.facebook.com'',
               authorizePath = Some ''/v3.0/dialog/oauth'',
               tokenHost = ''https://graph.facebook.com'',
               tokenPath = Some ''/v3.0/oauth/access_token''\<rparr>
        \<and> activeDirectoryOAuthClient (oauthClients this) = createOAuth initializationModule"
    by simp
  from t2 no have n: "\<not> (\<exists>this. constructor strict_runtime sample_config = Inr this)"
    by blast
  from t2 n have p2: "constructor strict_runtime sample_config = Inl ValidationError"
    by (cases "constructor strict_runtime sample_config") auto
  from c p1 p2 show ?thesis by blast
qed

section \<open>The redirect endpoint: choosing the client\<close>

lemma unrecognized_state_routes_to_activeDirectory:
  assumes "st \<noteq> StrategyType_Facebook" and "st \<noteq> StrategyType_Github"
  shows "selectOAuthClient clients st = activeDirectoryOAuthClient clients"
  using assms by (simp add: selectOAuthClient_def)

text \<open>
  Claim C6: the code at the request \<open>GET /auth/callback?code=abc123\<close>, which has no
  state. The second segment of the query is \<open>undefined\<close> and \<open>slice\<close> throws
  \<open>TypeError\<close> before the \<open>switch\<close> is reached, whatever the object and the platform.
\<close>

theorem callback_without_state_throws:
  "redirectEndpoint rt ''code=abc123'' this = Inl TypeError"
  by (simp add: redirectEndpoint_def query_code_def query_state_def index_def)

section \<open>The redirect endpoint: reading the query\<close>

lemma split_str_no_separator:
  "sep \<notin> set s \<Longrightarrow> split_str sep s = [s]"
  by (induction s) auto

lemma split_str_at_separator:
  "sep \<notin> set a \<Longrightarrow> split_str sep (a @ sep # b) = a # split_str sep b"
  by (induction a) auto

lemma split_str_not_empty: "split_str sep s \<noteq> []"
  by (induction s) (auto split: list.splits)

lemma callback_query_segments:
  assumes "CHR ''&'' \<notin> set c" and "CHR ''&'' \<notin> set s"
  shows "split_str CHR ''&'' (''code='' @ c @ ''&state='' @ s) = [''code='' @ c, ''state='' @ s]"
proof -
  have 1: "CHR ''&'' \<notin> set (''code='' @ c)" using assms(1) by simp
  have 2: "CHR ''&'' \<notin> set (''state='' @ s)" using assms(2) by simp
  have "split_str CHR ''&'' ((''code='' @ c) @ CHR ''&'' # (''state='' @ s))
          = (''code='' @ c) # split_str CHR ''&'' (''state='' @ s)"
    using 1 by (rule split_str_at_separator)
  also have "split_str CHR ''&'' (''state='' @ s) = [''state='' @ s]"
    using 2 by (rule split_str_no_separator)
  finally show ?thesis by simp
qed

text \<open>
  Claim C7. For a query with at least two segments between \<open>&\<close>, as
  \<open>code=...&state=...\<close> has, the code is the first segment from its sixth character on,
  not decoded, and the state is \<open>decodeURIComponent\<close> of the second segment from its
  seventh character on (\<open>URIError\<close> when that throws). The code goes to the exchange as
  it was extracted.
\<close>

theorem callback_query_parsing:
  assumes "split_str CHR ''&'' query = seg0 # seg1 # segs"
  shows "query_code query = Inr (drop 5 seg0)
       \<and> query_state rt query =
           (case decodeURIComponent rt (drop 6 seg1) of
              None \<Rightarrow> Inl URIError
            | Some st \<Rightarrow> Inr st)
       \<and> (\<forall>st.
             decodeURIComponent rt (drop 6 seg1) = Some st \<longrightarrow>
             (\<exists>ev this'.
                redirectEndpoint rt query this =
                  Inr ([GetToken (selectOAuthClient (oauthClients this) st)
                          (TokenConfig (drop 5 seg0) (callbackURL this)), ev], this')))"
  using assms
  by (auto simp: query_code_def query_state_def index_def slice_def redirectEndpoint_def
        Let_def split: sum.splits)

text \<open>
  C7 at \<open>code=abc%20123&state=Git%48ub\<close>: the escape in the code stays, the one in the
  state is decoded.
\<close>

theorem callback_query_parsing_witness:
  "split_str CHR ''&'' ''code=abc%20123&state=Git%48ub'' = [''code=abc%20123'', ''state=Git%48ub'']
   \<and> query_code ''code=abc%20123&state=Git%48ub'' = Inr ''abc%20123''
   \<and> query_state sample_runtime ''code=abc%20123&state=Git%48ub'' = Inr ''GitHub''"
proof -
  have s: "split_str CHR ''&'' ''code=abc%20123&state=Git%48ub''
             = ''code=abc%20123'' # ''state=Git%48ub'' # []"
    by simp
  have d: "decodeURIComponent sample_runtime (drop 6 ''state=Git%48ub'') = Some ''GitHub''"
    by code_simp
  from callback_query_parsing [OF s, of sample_runtime] d s
  show ?thesis by simp
qed

section \<open>The redirect endpoint: a successful exchange\<close>








section \<open>The actions of the login card\<close>

text \<open>
  Claim C9. The card has one action for each configured provider and none for the others
  (its length is the number of configured providers, and the actions whose state is a
  given provider's identifier number one or zero). The action of a configured provider
  opens the authorization URL built by that provider's client with the provider's
  identifier as state and the configured scopes, or \<open>public_profile\<close>, \<open>User.Read\<close>,
  \<open>user\<close> when none are given; its title is the configured button text, or
  \<open>Log in with Facebook\<close>, \<open>Log in with Microsoft\<close>, \<open>Log in with GitHub\<close> when that is
  absent or empty. With no provider configured the card has no action.
\<close>

theorem login_card_actions:
  "\<exists>as. createAuthenticationCard this = ThumbnailCard as
     \<and> length as =
         (if facebook (authenticationConfig this) = None then 0 else 1)
         + (if activeDirectory (authenticationConfig this) = None then 0 else 1)
         + (if github (authenticationConfig this) = None then 0 else 1)
     \<and> length (filter (\<lambda>a. state (action_params a) = StrategyType_Facebook) as) =
         (if facebook (authenticationConfig this) = None then 0 else 1)
     \<and> length (filter (\<lambda>a. state (action_params a) = StrategyType_ActiveDirectory) as) =
         (if activeDirectory (authenticationConfig this) = None then 0 else 1)
     \<and> length (filter (\<lambda>a. state (action_params a) = StrategyType_Github) as) =
         (if github (authenticationConfig this) = None then 0 else 1)
     \<and> (\<forall>p. facebook (authenticationConfig this) = Some p \<longrightarrow>
           CardAction ''openUrl''
             (authorizeURL (facebookOAuthClient (oauthClients this))
                (AuthorizeParams (callbackURL this)
                   (case scopes p of None \<Rightarrow> [''public_profile''] | Some xs \<Rightarrow> xs)
                   StrategyType_Facebook))
             (case buttonText p of
                None \<Rightarrow> ''Log in with Facebook''
              | Some t \<Rightarrow> if t = [] then ''Log in with Facebook'' else t)
           \<in> set as)
     \<and> (\<forall>p. activeDirectory (authenticationConfig this) = Some p \<longrightarrow>
           CardAction ''openUrl''
             (authorizeURL (activeDirectoryOAuthClient (oauthClients this))
                (AuthorizeParams (callbackURL this)
                   (case scopes p of None \<Rightarrow> [''User.Read''] | Some xs \<Rightarrow> xs)
                   StrategyType_ActiveDirectory))
             (case buttonText p of
                None \<Rightarrow> ''Log in with Microsoft''
              | Some t \<Rightarrow> if t = [] then ''Log in with Microsoft'' else t)
           \<in> set as)
     \<and> (\<forall>p. github (authenticationConfig this) = Some p \<longrightarrow>
           CardAction ''openUrl''
             (authorizeURL (githubOAuthClient (oauthClients this))
                (AuthorizeParams (callbackURL this)
                   (case scopes p of None \<Rightarrow> [''user''] | Some xs \<Rightarrow> xs)
                   StrategyType_Github))
             (case buttonText p of
                None \<Rightarrow> ''Log in with GitHub''
              | Some t \<Rightarrow> if t = [] then ''Log in with GitHub'' else t)
           \<in> set as)
     \<and> (facebook (authenticationConfig this) = None
          \<and> activeDirectory (authenticationConfig this) = None
          \<and> github (authenticationConfig this) = None \<longrightarrow> as = [])"
proof (cases "facebook (authenticationConfig this)")
  case fbN: None
  show ?thesis
  proof (cases "activeDirectory (authenticationConfig this)")
    case adN: None
    show ?thesis
      by (cases "github (authenticationConfig this)")
         (simp_all add: fbN adN createAuthenticationCard_def string_or_def array_or_def
            StrategyType_ActiveDirectory_def StrategyType_Facebook_def StrategyType_Github_def)
  next
    case adS: (Some a)
    show ?thesis
      by (cases "github (authenticationConfig this)")
         (simp_all add: fbN adS createAuthenticationCard_def string_or_def array_or_def
            StrategyType_ActiveDirectory_def StrategyType_Facebook_def StrategyType_Github_def)
  qed
next
  case fbS: (Some f)
  show ?thesis
  proof (cases "activeDirectory (authenticationConfig this)")
    case adN: None
    show ?thesis
      by (cases "github (authenticationConfig this)")
         (simp_all add: fbS adN createAuthenticationCard_def string_or_def array_or_def
            StrategyType_ActiveDirectory_def StrategyType_Facebook_def StrategyType_Github_def)
  next
    case adS: (Some a)
    show ?thesis
      by (cases "github (authenticationConfig this)")
         (simp_all add: fbS adS createAuthenticationCard_def string_or_def array_or_def
            StrategyType_ActiveDirectory_def StrategyType_Facebook_def StrategyType_Github_def)
  qed
qed

text \<open>
  C9 at the sample configuration: Facebook with defaults, GitHub with its own scopes and
  button text, no Active Directory.
\<close>

theorem login_card_actions_witness:
  "createAuthenticationCard sample_object =
     ThumbnailCard
       [CardAction ''openUrl''
          (authorizeURL (facebookOAuthClient sample_clients)
             (AuthorizeParams ''http://localhost:3978/auth/callback'' [''public_profile'']
                ''Facebook''))
          ''Log in with Facebook'',
        CardAction ''openUrl''
          (authorizeURL (githubOAuthClient sample_clients)
             (AuthorizeParams ''http://localhost:3978/auth/callback'' [''repo''] ''Github''))
          ''GitHub login'']
   \<and> (\<exists>as. createAuthenticationCard sample_object = ThumbnailCard as
          \<and> length as = 2
          \<and> length (filter (\<lambda>a. state (action_params a) = StrategyType_ActiveDirectory) as) = 0
          \<and> CardAction ''openUrl''
               (authorizeURL (githubOAuthClient sample_clients)
                  (AuthorizeParams ''http://localhost:3978/auth/callback'' [''repo''] ''Github''))
               ''GitHub login'' \<in> set as)"
proof -
  have c: "authenticationConfig sample_object = sample_config"
          "oauthClients sample_object = sample_clients"
          "callbackURL sample_object = ''http://localhost:3978/auth/callback''"
    by (simp_all add: sample_object_def)
  have f: "facebook sample_config =
             Some \<lparr>clientId = ''fb-app'', clientSecret = ''fb-secret'',
                   scopes = None, buttonText = None\<rparr>"
          "activeDirectory sample_config = None"
          "github sample_config =
             Some \<lparr>clientId = ''gh-app'', clientSecret = ''gh-secret'',
                   scopes = Some [''repo''], buttonText = Some ''GitHub login''\<rparr>"
    by (simp_all add: sample_config_def sample_facebook_def sample_github_def)
  have e: "createAuthenticationCard sample_object =
     ThumbnailCard
       [CardAction ''openUrl''
          (authorizeURL (facebookOAuthClient sample_clients)
             (AuthorizeParams ''http://localhost:3978/auth/callback'' [''public_profile'']
                ''Facebook''))
          ''Log in with Facebook'',
        CardAction ''openUrl''
          (authorizeURL (githubOAuthClient sample_clients)
             (AuthorizeParams ''http://localhost:3978/auth/callback'' [''repo''] ''Github''))
          ''GitHub login'']"
    by (simp add: createAuthenticationCard_def c f string_or_def array_or_def
          StrategyType_Facebook_def StrategyType_Github_def)
  from login_card_actions [of sample_object]
  obtain as where a: "createAuthenticationCard sample_object = ThumbnailCard as"
    and l: "length as =
         (if facebook (authenticationConfig sample_object) = None then 0 else 1)
         + (if activeDirectory (authenticationConfig sample_object) = None then 0 else 1)
         + (if github (authenticationConfig sample_object) = None then 0 else 1)"
    and d: "length (filter (\<lambda>a. state (action_params a) = StrategyType_ActiveDirectory) as) =
         (if activeDirectory (authenticationConfig sample_object) = None then 0 else 1)"
    and g: "\<forall>p. github (authenticationConfig sample_object) = Some p \<longrightarrow>
           CardAction ''openUrl''
             (authorizeURL (githubOAuthClient (oauthClients sample_object))
                (AuthorizeParams (callbackURL sample_object)
                   (case scopes p of None \<Rightarrow> [''user''] | Some xs \<Rightarrow> xs)
                   StrategyType_Github))
             (case buttonText p of
                None \<Rightarrow> ''Log in with GitHub''
              | Some t \<Rightarrow> if t = [] then ''Log in with GitHub'' else t)
           \<in> set as"
    by blast
  from l f c have l2: "length as = 2" by simp
  from d f c have d0: "length (filter (\<lambda>a. state (action_params a) = StrategyType_ActiveDirectory) as) = 0"
    by simp
  from g f c have g1: "CardAction ''openUrl''
               (authorizeURL (githubOAuthClient sample_clients)
                  (AuthorizeParams ''http://localhost:3978/auth/callback'' [''repo''] ''Github''))
               ''GitHub login'' \<in> set as"
    by (simp add: StrategyType_Github_def)
  from e a l2 d0 g1 show ?thesis by blast
qed

section \<open>The redirect URI\<close>

lemma card_redirect_uris:
  "\<forall>u \<in> set (redirect_uris (SendActivity ctx (createAuthenticationCard this))).
     u = callbackURL this"
  by (auto simp: createAuthenticationCard_def Let_def split: option.splits)

lemma onTurn_redirect_uris:
  assumes "onTurn rt ctx this = (evs, this', e)"
  shows "callbackURL this' = callbackURL this
       \<and> (\<forall>ev \<in> set evs. \<forall>u \<in> set (redirect_uris ev). u = callbackURL this)"
proof -
  note c = card_redirect_uris [of ctx this]
  show ?thesis
    using assms c
    by (auto simp: onTurn_def handleMagicCode_def handleMagicCode_begin_def
             handleMagicCode_resume_def Let_def
             split: if_splits option.splits)
qed

lemma redirectEndpoint_redirect_uris:
  assumes "redirectEndpoint rt query this = Inr (evs, this')"
  shows "callbackURL this' = callbackURL this
       \<and> (\<forall>ev \<in> set evs. \<forall>u \<in> set (redirect_uris ev). u = callbackURL this)"
  using assms
  by (auto simp: redirectEndpoint_def Let_def split: sum.splits)

lemma serve_redirect_uris:
  assumes "serve rt r this = (evs, this', e)"
  shows "callbackURL this' = callbackURL this
       \<and> (\<forall>ev \<in> set evs. \<forall>u \<in> set (redirect_uris ev). u = callbackURL this)"
proof (cases r)
  case (Turn ctx)
  with assms show ?thesis using onTurn_redirect_uris by simp
next
  case (Redirect query)
  show ?thesis
  proof (cases "redirectEndpoint rt query this")
    case (Inl x)
    with assms Redirect show ?thesis by simp
  next
    case (Inr p)
    obtain evs0 this0 where p: "p = (evs0, this0)" by (cases p)
    from redirectEndpoint_redirect_uris [of rt query this evs0 this0] Inr p assms Redirect
    show ?thesis by simp
  qed
qed

lemma run_redirect_uris:
  "\<forall>ev \<in> set (fst (run reqs this)). \<forall>u \<in> set (redirect_uris ev). u = callbackURL this"
proof (induction reqs arbitrary: this)
  case Nil
  show ?case by simp
next
  case (Cons q reqs)
  obtain rt r where q: "q = (rt, r)" by (cases q)
  obtain evs this' e where p: "serve rt r this = (evs, this', e)"
    by (cases "serve rt r this")
  from serve_redirect_uris [OF p]
  have s: "callbackURL this' = callbackURL this"
    "\<forall>ev \<in> set evs. \<forall>u \<in> set (redirect_uris ev). u = callbackURL this"
    by blast+
  from Cons.IH [of this'] s(1)
  have t: "\<forall>ev \<in> set (fst (run reqs this')). \<forall>u \<in> set (redirect_uris ev). u = callbackURL this"
    by simp
  have "fst (run (q # reqs) this) = evs @ fst (run reqs this')"
    using q p by (simp split: prod.splits)
  with s(2) t show ?case by auto
qed

text \<open>
  Claim C10. Whatever the configuration and whatever requests the constructed object
  serves, every authorization URL of a login card and every token exchange carry the
  redirect URI
  \<open>http://localhost:3978/auth/callback\<close>, the constant the constructor assigns to
  \<open>callbackURL\<close> and nothing ever changes.
\<close>

theorem redirect_uri_is_constant:
  assumes "constructor rt cfg = Inr this"
  shows "callbackURL this = ''http://localhost:3978/auth/callback''
       \<and> (\<forall>ev \<in> set (fst (run reqs this)).
            \<forall>u \<in> set (redirect_uris ev). u = ''http://localhost:3978/auth/callback'')"
proof -
  from assms have c: "callbackURL this = ''http://localhost:3978/auth/callback''"
    by (cases "createOAuthClients rt cfg") (auto simp: constructor_def)
  from run_redirect_uris [of reqs this] c show ?thesis by simp
qed

lemma sample_run_redirect_uris:
  "concat (map redirect_uris (fst (run sample_requests sample_object)))
     = [''http://localhost:3978/auth/callback'', ''http://localhost:3978/auth/callback'',
        ''http://localhost:3978/auth/callback'']"
  by code_simp

text \<open>
  C10 at three requests served by the object built for the sample configuration: a first
  message (two card actions), a redirect (one exchange) and the code typed back.
\<close>

theorem redirect_uri_is_constant_witness:
  "constructor sample_runtime sample_config = Inr sample_object
   \<and> concat (map redirect_uris (fst (run sample_requests sample_object)))
     = [''http://localhost:3978/auth/callback'', ''http://localhost:3978/auth/callback'',
        ''http://localhost:3978/auth/callback'']
   \<and> set (concat (map redirect_uris (fst (run sample_requests sample_object))))
       \<subseteq> {''http://localhost:3978/auth/callback''}"
proof -
  from redirect_uri_is_constant [OF sample_constructed, of sample_requests]
  have "set (concat (map redirect_uris (fst (run sample_requests sample_object))))
          \<subseteq> {''http://localhost:3978/auth/callback''}"
    by auto
  with sample_run_redirect_uris sample_constructed show ?thesis by blast
qed

end
